theory Spec2Isabelle
  imports Complex_Main "HOL-Library.DAList" "HOL-Library.Sublist"
begin

section \<open>Python values, truthiness and exceptions\<close>

text \<open>
  The request mappings, the agents' results and the decoded JSON bodies are Python values.
  \<open>PObj\<close> is an object of any other class, named by its class (a coroutine, for example):
  such an object is truthy, is not a container and cannot be subscripted.
  A \<open>string\<close> is a Python \<open>str\<close> whose code points are below 256, one \<open>char\<close> per code point
  (so \<open>CHR 0xE9\<close> is the letter e with an acute accent). A \<open>dict\<close> value is the list of its
  items in insertion order. Floats are only carried around, never computed with.
\<close>

datatype pyval =
    PNone
  | PBool bool
  | PInt int
  | PFloat real
  | PStr string
  | PList "pyval list"
  | PDict "(string \<times> pyval) list"
  | PObj string

text \<open>\<open>bool(v)\<close>, as \<open>if v\<close> and \<open>not v\<close> test it.\<close>

fun truthy :: "pyval \<Rightarrow> bool" where
  "truthy PNone = False"
| "truthy (PBool b) = b"
| "truthy (PInt i) = (i \<noteq> 0)"
| "truthy (PFloat r) = (r \<noteq> 0)"
| "truthy (PStr s) = (s \<noteq> [])"
| "truthy (PList xs) = (xs \<noteq> [])"
| "truthy (PDict kvs) = (kvs \<noteq> [])"
| "truthy (PObj c) = True"

text \<open>
  An exception of class \<open>Exception\<close> (what \<open>except Exception\<close> catches): its class name and
  \<open>str(e)\<close>. A computation that may raise returns \<open>py_error + 'a\<close>, \<open>Inl\<close> the raised
  exception.
\<close>

datatype py_error = PyError (exc_class: string) (exc_str: string)

text \<open>\<open>data.get(key, default)\<close> and \<open>key in data\<close> on a request mapping.\<close>

type_synonym request = "string \<rightharpoonup> pyval"

definition dict_get :: "request \<Rightarrow> string \<Rightarrow> pyval \<Rightarrow> pyval" where
  "dict_get data key dflt = (case data key of None \<Rightarrow> dflt | Some v \<Rightarrow> v)"

definition has_key :: "request \<Rightarrow> string \<Rightarrow> bool" where
  "has_key data key = (data key \<noteq> None)"

text \<open>\<open>key in v\<close> for a string \<open>key\<close>: membership in a dict's keys, in a list, substring of a
  string; a \<open>TypeError\<close> on a value that is not a container.\<close>

fun py_contains :: "string \<Rightarrow> pyval \<Rightarrow> py_error + bool" where
  "py_contains key (PDict kvs) = Inr (map_of kvs key \<noteq> None)"
| "py_contains key (PList xs) = Inr (PStr key \<in> set xs)"
| "py_contains key (PStr s) = Inr (sublist key s)"
| "py_contains key v = Inl (PyError ''TypeError'' ''argument is not iterable'')"

text \<open>\<open>v[key]\<close> for a string \<open>key\<close>.\<close>

fun py_getitem :: "pyval \<Rightarrow> string \<Rightarrow> py_error + pyval" where
  "py_getitem (PDict kvs) key =
     (case map_of kvs key of
        None \<Rightarrow> Inl (PyError ''KeyError'' ([CHR 0x27] @ key @ [CHR 0x27]))
      | Some v \<Rightarrow> Inr v)"
| "py_getitem (PList xs) key =
     Inl (PyError ''TypeError'' ''list indices must be integers or slices, not str'')"
| "py_getitem (PStr s) key =
     Inl (PyError ''TypeError'' ''string indices must be integers, not str'')"
| "py_getitem v key = Inl (PyError ''TypeError'' ''object is not subscriptable'')"

section \<open>The model backend adapter (llm/llm\_connector.py)\<close>

text \<open>
  An \<open>LLMConnector\<close> is seen through its two methods. \<open>check_status_call\<close> is what the plain
  call \<open>connector.check_status()\<close> evaluates to, and \<open>generate_call prompt kwargs\<close> what
  \<open>await connector.generate(prompt, **kwargs)\<close> evaluates to.
\<close>

record connector =
  check_status_call :: "py_error + pyval"
  generate_call :: "string \<Rightarrow> (string \<times> pyval) list \<Rightarrow> py_error + pyval"

text \<open>
  The httpx response, by what its two methods do: \<open>raise_for_status()\<close> raises or returns,
  \<open>json()\<close> raises or returns the decoded body.
\<close>

record http_response =
  raise_for_status :: "py_error option"
  json :: "py_error + pyval"

text \<open>
  \<open>OllamaConnector\<close>: its two attributes and its HTTP client, \<open>client_post url payload\<close> being
  what \<open>await self.client.post(url, json=payload)\<close> evaluates to (it raises when the network
  call fails).
\<close>

record ollama =
  model_name :: string
  base_url :: string
  client_post :: "string \<Rightarrow> pyval \<Rightarrow> py_error + http_response"

text \<open>The loop over \<open>kwargs.items()\<close>: every key but model, prompt and system becomes an
  option of the payload.\<close>

fun add_options :: "(string \<times> pyval) list \<Rightarrow> (string \<times> pyval) list \<Rightarrow> (string \<times> pyval) list" where
  "add_options [] options = options"
| "add_options ((key, val) # kwargs) options =
     (if key \<notin> set [''model'', ''prompt'', ''system'']
      then add_options kwargs (AList.update key val options)
      else add_options kwargs options)"

definition build_payload ::
  "ollama \<Rightarrow> string \<Rightarrow> pyval \<Rightarrow> pyval \<Rightarrow> pyval \<Rightarrow> (string \<times> pyval) list \<Rightarrow> pyval" where
  "build_payload self prompt system_message temperature max_tokens kwargs =
     (let options = [(''temperature'', temperature), (''num_predict'', max_tokens)];
          payload = [(''model'', PStr (model_name self)), (''prompt'', PStr prompt),
                     (''options'', PDict (add_options kwargs options))]
      in PDict (if truthy system_message
                then AList.update ''system'' system_message payload
                else payload))"

text \<open>
  \<open>OllamaConnector.generate\<close>. Every exception of the \<open>try\<close> block is logged and raised again
  by the handler, so each \<open>Inl\<close> of the block is the function's result. A decoded body without
  \<open>response\<close> is logged as an error and the empty string is returned.
\<close>

definition OllamaConnector_generate ::
  "ollama \<Rightarrow> string \<Rightarrow> pyval \<Rightarrow> pyval \<Rightarrow> pyval \<Rightarrow> (string \<times> pyval) list \<Rightarrow> py_error + pyval" where
  "OllamaConnector_generate self prompt system_message temperature max_tokens kwargs =
     (let payload = build_payload self prompt system_message temperature max_tokens kwargs in
      case client_post self (base_url self @ ''/api/generate'') payload of
        Inl e \<Rightarrow> Inl e
      | Inr response \<Rightarrow>
          (case raise_for_status response of
             Some e \<Rightarrow> Inl e
           | None \<Rightarrow>
               (case json response of
                  Inl e \<Rightarrow> Inl e
                | Inr result \<Rightarrow>
                    (case py_contains ''response'' result of
                       Inl e \<Rightarrow> Inl e
                     | Inr True \<Rightarrow> py_getitem result ''response''
                     | Inr False \<Rightarrow> Inr (PStr '''')))))"

text \<open>
  How a call \<open>generate(prompt, **kw)\<close> binds the keywords to the parameters
  \<open>system_message=None\<close>, \<open>temperature=0.7\<close>, \<open>max_tokens=2000\<close> and \<open>**kwargs\<close>.
\<close>

definition kw_get :: "(string \<times> pyval) list \<Rightarrow> string \<Rightarrow> pyval \<Rightarrow> pyval" where
  "kw_get kw key dflt = (case map_of kw key of None \<Rightarrow> dflt | Some v \<Rightarrow> v)"

definition OllamaConnector_generate_kw ::
  "ollama \<Rightarrow> string \<Rightarrow> (string \<times> pyval) list \<Rightarrow> py_error + pyval" where
  "OllamaConnector_generate_kw self prompt kw =
     OllamaConnector_generate self prompt
       (kw_get kw ''system_message'' PNone)
       (kw_get kw ''temperature'' (PFloat 0.7))
       (kw_get kw ''max_tokens'' (PInt 2000))
       (filter (\<lambda>(key, val). key \<notin> set [''system_message'', ''temperature'', ''max_tokens'']) kw)"

text \<open>
  \<open>OllamaConnector.check_status\<close> is declared \<open>async def\<close>: the plain call
  \<open>connector.check_status()\<close>, as \<open>BaseAgent.check_status\<close> makes it, creates a coroutine
  object and runs nothing of the body.
\<close>

definition OllamaConnector :: "ollama \<Rightarrow> connector" where
  "OllamaConnector self =
     \<lparr>check_status_call = Inr (PObj ''coroutine''),
      generate_call = OllamaConnector_generate_kw self\<rparr>"

section \<open>The regular expression of the code assistant\<close>

text \<open>
  Python's \<open>re\<close> matches by backtracking. The pattern of \<open>_parse_llm_response\<close> is a sequence
  of three kinds of items: a literal text, a greedy star over a character class (\<open>\s*\<close>) and the
  lazy star in group 1 (\<open>(.*?)\<close>). \<open>rx_match items grp s\<close> matches the items at the start of
  \<open>s\<close> and returns group 1 and the text left after the match. A greedy star tries the longest
  run first and gives characters back one at a time; a lazy star tries the empty run first
  and takes one more character at a time.
\<close>

datatype rx_item = Lit string | Star "char \<Rightarrow> bool" | LazyGroup "char \<Rightarrow> bool"

fun first_some :: "('a \<Rightarrow> 'b option) \<Rightarrow> 'a list \<Rightarrow> 'b option" where
  "first_some f [] = None"
| "first_some f (x # xs) = (case f x of Some y \<Rightarrow> Some y | None \<Rightarrow> first_some f xs)"

fun rx_match :: "rx_item list \<Rightarrow> string \<Rightarrow> string \<Rightarrow> (string \<times> string) option" where
  "rx_match [] grp s = Some (grp, s)"
| "rx_match (Lit l # items) grp s =
     (if prefix l s then rx_match items grp (drop (length l) s) else None)"
| "rx_match (Star P # items) grp s =
     first_some (\<lambda>n. rx_match items grp (drop n s)) (rev [0..<Suc (length (takeWhile P s))])"
| "rx_match (LazyGroup P # items) grp s =
     first_some (\<lambda>n. rx_match items (take n s) (drop n s)) [0..<Suc (length (takeWhile P s))]"

text \<open>The match object: \<open>start()\<close>, \<open>end()\<close> and \<open>group(1)\<close>.\<close>

record rx_result =
  m_start :: nat
  m_end :: nat
  m_group1 :: string

text \<open>\<open>pattern.search\<close>: the first position, from the left, where the pattern matches;
  \<open>i\<close> is the position of \<open>s\<close> in the whole text.\<close>

fun rx_search :: "rx_item list \<Rightarrow> nat \<Rightarrow> string \<Rightarrow> rx_result option" where
  "rx_search items i s =
     (case rx_match items [] s of
        Some (grp, rest) \<Rightarrow>
          Some \<lparr>m_start = i, m_end = i + (length s - length rest), m_group1 = grp\<rparr>
      | None \<Rightarrow> (case s of [] \<Rightarrow> None | c # cs \<Rightarrow> rx_search items (Suc i) cs))"

declare rx_search.simps [simp del]

text \<open>The whitespace of \<open>\s\<close> and of \<open>str.strip()\<close> among the code points below 256.\<close>

definition is_space :: "char \<Rightarrow> bool" where
  "is_space c = (c \<in> set [CHR 0x09, CHR 0x0A, CHR 0x0B, CHR 0x0C, CHR 0x0D, CHR 0x1C, CHR 0x1D,
                            CHR 0x1E, CHR 0x1F, CHR 0x20, CHR 0x85, CHR 0xA0])"

definition strip :: "string \<Rightarrow> string" where
  "strip s = rev (dropWhile is_space (rev (dropWhile is_space s)))"

text \<open>\<open>re.compile(r"```python\s*(.*?)\s*```", re.DOTALL)\<close>: with \<open>DOTALL\<close> the dot matches
  every character.\<close>

definition code_pattern :: "rx_item list" where
  "code_pattern =
     [Lit ''```python'', Star is_space, LazyGroup (\<lambda>c. True), Star is_space, Lit ''```'']"

text \<open>\<open>CodeAssistant._parse_llm_response\<close>: the pair (improved code, explanation).\<close>

definition parse_llm_response :: "string \<Rightarrow> string \<times> string" where
  "parse_llm_response response =
     (case rx_search code_pattern 0 response of
        Some code_match \<Rightarrow>
          (let improved_code = strip (m_group1 code_match);
               explanation = strip (drop (m_end code_match) response);
               explanation' = (if explanation = [] then strip (take (m_start code_match) response)
                               else explanation)
           in (improved_code, explanation'))
      | None \<Rightarrow> (response, ''''))"

text \<open>A text fenced as a Python code block, the way the prompts ask the model to answer.\<close>

definition fence :: "string \<Rightarrow> string" where
  "fence code = ''```python'' @ [CHR 0x0A] @ code @ [CHR 0x0A] @ ''```''"

section \<open>What the agents call outside the repository\<close>

text \<open>
  The document-Q&A agent works through the docling, FAISS and langchain libraries. Their
  objects are opaque handles here, and what their calls do is a parameter of the model
  (\<open>externals\<close>), as is the text of the prompts, which is string templating that may
  raise on a field of the wrong type, and Python's \<open>str()\<close> on numbers and containers.
\<close>

datatype conversion = Conversion nat
datatype faiss_index = FaissIndex nat
datatype chat_groq = ChatGroq string

record document =
  page_content :: string
  metadata :: "(string \<times> pyval) list"

text \<open>The mapping a retrieval chain returns: its \<open>result\<close> and \<open>source_documents\<close> entries,
  \<open>None\<close> when the key is absent.\<close>

record chain_result =
  chain_answer :: "pyval option"
  source_documents :: "document list option"

text \<open>\<open>llm_to_use\<close> of \<open>RAGAgent.process\<close>: the ChatGroq object or the agent's connector.\<close>

datatype llm_choice = UseChatGroq chat_groq | UseConnector "connector option"

record externals =
  py_str_other :: "pyval \<Rightarrow> string"
  build_readme_prompt :: "pyval \<Rightarrow> pyval \<Rightarrow> pyval \<Rightarrow> pyval \<Rightarrow> pyval \<Rightarrow> py_error + string"
  build_code_prompt :: "pyval \<Rightarrow> pyval \<Rightarrow> pyval \<Rightarrow> pyval \<Rightarrow> py_error + string"
  build_debug_prompt :: "pyval \<Rightarrow> pyval \<Rightarrow> pyval \<Rightarrow> py_error + string"
  doc_process_document :: "pyval \<Rightarrow> py_error + (conversion \<times> string list)"
  get_images_from_document :: "conversion \<Rightarrow> pyval list"
  faiss_from_documents :: "document list \<Rightarrow> py_error + faiss_index"
  faiss_save_local :: "faiss_index \<Rightarrow> pyval \<Rightarrow> py_error option"
  faiss_load_local :: "pyval \<Rightarrow> py_error + faiss_index"
  qa_chain_invoke :: "llm_choice \<Rightarrow> faiss_index \<Rightarrow> pyval \<Rightarrow> py_error + chain_result"

text \<open>\<open>str(v)\<close>, as an f-string formats \<open>v\<close>.\<close>

definition py_str :: "externals \<Rightarrow> pyval \<Rightarrow> string" where
  "py_str ext v =
     (case v of
        PStr s \<Rightarrow> s
      | PNone \<Rightarrow> ''None''
      | PBool b \<Rightarrow> (if b then ''True'' else ''False'')
      | _ \<Rightarrow> py_str_other ext v)"

section \<open>The agent contract (agents/base\_agent.py)\<close>

text \<open>
  The classes of agents: the four of the repository, and \<open>OtherAgent\<close> for any further
  subclass of \<open>BaseAgent\<close>, given by what its \<open>process\<close> does on a request.
  An agent is its attributes; \<open>vectorstore\<close> and \<open>llm\<close> are those of \<open>RAGAgent\<close>.
  \<open>llm_connector\<close> is \<open>None\<close> when the agent was constructed without a connector.
\<close>

datatype agent_class =
    ReadmeGenerator
  | CodeAssistant
  | DebugAssistant
  | RAGAgent
  | OtherAgent "request \<Rightarrow> py_error + pyval"

record agent =
  cls :: agent_class
  name :: string
  description :: string
  llm_connector :: "connector option"
  vectorstore :: "faiss_index option"
  llm :: "chat_groq option"

text \<open>The \<open>AttributeError\<close> of a method call on \<open>None\<close>.\<close>

definition none_has_no_attribute :: "string \<Rightarrow> py_error" where
  "none_has_no_attribute attr =
     PyError ''AttributeError''
       ([CHR 0x27] @ ''NoneType'' @ [CHR 0x27] @ '' object has no attribute ''
        @ [CHR 0x27] @ attr @ [CHR 0x27])"

text \<open>\<open>BaseAgent.check_status\<close>: \<open>return self.llm_connector.check_status()\<close>.\<close>

definition check_status :: "agent \<Rightarrow> py_error + pyval" where
  "check_status self =
     (case llm_connector self of
        None \<Rightarrow> Inl (none_has_no_attribute ''check_status'')
      | Some c \<Rightarrow> check_status_call c)"

text \<open>\<open>BaseAgent.get_info\<close>.\<close>

definition get_info :: "agent \<Rightarrow> (string \<times> string) list" where
  "get_info self = [(''name'', name self), (''description'', description self)]"

text \<open>\<open>await self.llm_connector.generate(prompt, **kw)\<close>.\<close>

definition llm_generate :: "agent \<Rightarrow> string \<Rightarrow> (string \<times> pyval) list \<Rightarrow> py_error + pyval" where
  "llm_generate self prompt kw =
     (case llm_connector self of
        None \<Rightarrow> Inl (none_has_no_attribute ''generate'')
      | Some c \<Rightarrow> generate_call c prompt kw)"

section \<open>The code assistant (agents/code\_assistant.py)\<close>

text \<open>The \<open>try\<close> block of \<open>CodeAssistant.process\<close>. A result of \<open>generate\<close> that is not a string
  makes \<open>code_pattern.search\<close> raise.\<close>

definition CodeAssistant_process_try :: "externals \<Rightarrow> agent \<Rightarrow> request \<Rightarrow> py_error + pyval" where
  "CodeAssistant_process_try ext self data =
     (let code = dict_get data ''code'' (PStr '''');
          task_type = dict_get data ''task_type'' (PStr ''correction'');
          requirements = dict_get data ''requirements'' (PList []);
          context = dict_get data ''context'' (PStr '''')
      in if \<not> truthy code
         then Inr (PDict [(''improved_code'', PStr ''''),
                          (''explanation'', PStr (''Aucun code fourni '' @ [CHR 0xE0] @ '' am''
                                                   @ [CHR 0xE9] @ ''liorer.'')),
                          (''success'', PBool False),
                          (''message'', PStr ''Erreur: code manquant'')])
         else
           (case build_code_prompt ext code task_type requirements context of
              Inl e \<Rightarrow> Inl e
            | Inr prompt \<Rightarrow>
                (case llm_generate self prompt
                        [(''max_tokens'', PInt 2048), (''temperature'', PFloat 0.2),
                         (''system_message'',
                            PStr (''Tu es un expert en Python qui excelle dans l'am'' @ [CHR 0xE9]
                                  @ ''lioration et l'optimisation de code.''))] of
                   Inl e \<Rightarrow> Inl e
                 | Inr (PStr response) \<Rightarrow>
                     (let (improved_code, explanation) = parse_llm_response response
                      in Inr (PDict [(''improved_code'', PStr improved_code),
                                     (''explanation'', PStr explanation),
                                     (''success'', PBool True),
                                     (''message'', PStr (''Code '' @ py_str ext task_type @ '' effectu''
                                                         @ [CHR 0xE9] @ '' avec succ'' @ [CHR 0xE8]
                                                         @ ''s''))]))
                 | Inr other \<Rightarrow>
                     Inl (PyError ''TypeError'' ''expected string or bytes-like object''))))"

text \<open>\<open>CodeAssistant.process\<close>: the handler turns every exception of the block into a result.\<close>

definition CodeAssistant_process :: "externals \<Rightarrow> agent \<Rightarrow> request \<Rightarrow> py_error + pyval" where
  "CodeAssistant_process ext self data =
     (case CodeAssistant_process_try ext self data of
        Inl e \<Rightarrow>
          Inr (PDict [(''improved_code'', PStr ''''),
                      (''explanation'', PStr ''''),
                      (''success'', PBool False),
                      (''message'', PStr (''Erreur lors de l'am'' @ [CHR 0xE9]
                                          @ ''lioration du code: '' @ exc_str e))])
      | Inr r \<Rightarrow> Inr r)"

section \<open>The README generator and the debug assistant\<close>

definition default_sections :: pyval where
  "default_sections =
     PList [PStr ''Introduction'', PStr ''Installation'', PStr ''Utilisation'',
            PStr (''Fonctionnalit'' @ [CHR 0xE9] @ ''s''), PStr ''Technologies'',
            PStr ''Structure du projet'', PStr ''Contribution'', PStr ''Licence'']"

definition ReadmeGenerator_process_try :: "externals \<Rightarrow> agent \<Rightarrow> request \<Rightarrow> py_error + pyval" where
  "ReadmeGenerator_process_try ext self data =
     (let project_name = dict_get data ''project_name'' (PStr '''');
          project_description = dict_get data ''project_description'' (PStr '''');
          code_snippets = dict_get data ''code_snippets'' (PList []);
          technologies = dict_get data ''technologies'' (PList []);
          include_sections = dict_get data ''include_sections'' default_sections
      in case build_readme_prompt ext project_name project_description code_snippets
                technologies include_sections of
           Inl e \<Rightarrow> Inl e
         | Inr prompt \<Rightarrow>
             (case llm_generate self prompt
                     [(''max_tokens'', PInt 3000), (''temperature'', PFloat 0.7),
                      (''system_message'',
                         PStr (''Tu es un expert en documentation technique qui excelle dans la cr''
                               @ [CHR 0xE9] @ ''ation de README professionnels.''))] of
                Inl e \<Rightarrow> Inl e
              | Inr generated \<Rightarrow>
                  Inr (PDict [(''content'', generated),
                              (''success'', PBool True),
                              (''message'', PStr (''README g'' @ [CHR 0xE9] @ ''n'' @ [CHR 0xE9]
                                                  @ ''r'' @ [CHR 0xE9] @ '' avec succ'' @ [CHR 0xE8]
                                                  @ ''s pour le projet ''
                                                  @ py_str ext project_name))])))"

definition ReadmeGenerator_process :: "externals \<Rightarrow> agent \<Rightarrow> request \<Rightarrow> py_error + pyval" where
  "ReadmeGenerator_process ext self data =
     (case ReadmeGenerator_process_try ext self data of
        Inl e \<Rightarrow>
          Inr (PDict [(''content'', PStr ''''),
                      (''success'', PBool False),
                      (''message'', PStr (''Erreur lors de la g'' @ [CHR 0xE9] @ ''n'' @ [CHR 0xE9]
                                          @ ''ration du README: '' @ exc_str e))])
      | Inr r \<Rightarrow> Inr r)"

definition DebugAssistant_process_try :: "externals \<Rightarrow> agent \<Rightarrow> request \<Rightarrow> py_error + pyval" where
  "DebugAssistant_process_try ext self data =
     (let code = dict_get data ''code'' (PStr '''');
          error_message = dict_get data ''error_message'' (PStr '''');
          context = dict_get data ''context'' (PStr '''')
      in if \<not> truthy code
         then Inr (PDict [(''debug_report'', PStr ''''),
                          (''success'', PBool False),
                          (''message'', PStr (''Aucun code fourni '' @ [CHR 0xE0]
                                              @ '' analyser.''))])
         else
           (case build_debug_prompt ext code error_message context of
              Inl e \<Rightarrow> Inl e
            | Inr prompt \<Rightarrow>
                (case llm_generate self prompt
                        [(''max_tokens'', PInt 2048), (''temperature'', PFloat 0.2),
                         (''system_message'',
                            PStr (''Tu es un expert en d'' @ [CHR 0xE9] @ ''bogage de code Python avec une exp''
                                  @ [CHR 0xE9] @ ''rience approfondie dans l'analyse et la r''
                                  @ [CHR 0xE9] @ ''solution de probl'' @ [CHR 0xE8]
                                  @ ''mes complexes.''))] of
                   Inl e \<Rightarrow> Inl e
                 | Inr generated \<Rightarrow>
                     Inr (PDict [(''debug_report'', generated),
                                 (''success'', PBool True),
                                 (''message'', PStr (''Rapport de debug g'' @ [CHR 0xE9] @ ''n''
                                                     @ [CHR 0xE9] @ ''r'' @ [CHR 0xE9]
                                                     @ '' avec succ'' @ [CHR 0xE8] @ ''s''))]))))"

definition DebugAssistant_process :: "externals \<Rightarrow> agent \<Rightarrow> request \<Rightarrow> py_error + pyval" where
  "DebugAssistant_process ext self data =
     (case DebugAssistant_process_try ext self data of
        Inl e \<Rightarrow>
          Inr (PDict [(''debug_report'', PStr ''''),
                      (''success'', PBool False),
                      (''message'', PStr (''Erreur lors de la g'' @ [CHR 0xE9] @ ''n'' @ [CHR 0xE9]
                                          @ ''ration du rapport de debug: '' @ exc_str e))])
      | Inr r \<Rightarrow> Inr r)"

section \<open>The document-Q&A agent (agents/rag\_agent.py)\<close>

text \<open>
  The three index operations change \<open>self.vectorstore\<close>, so each returns the agent as well.
  Each has its own handler and never raises. An index object is truthy, so
  \<open>not self.vectorstore\<close> holds exactly when the attribute is \<open>None\<close>.
\<close>

definition chunk_documents :: "externals \<Rightarrow> string list \<Rightarrow> document list" where
  "chunk_documents ext chunks =
     map (\<lambda>(i, chunk). \<lparr>page_content = chunk,
                         metadata = [(''source'', PStr (''chunk_'' @ py_str ext (PInt (int i))))]\<rparr>)
         (enumerate 0 chunks)"

definition process_document_failed :: "py_error \<Rightarrow> pyval" where
  "process_document_failed e =
     PDict [(''success'', PBool False),
            (''message'', PStr (''Error processing document: '' @ exc_str e)),
            (''document_info'', PNone)]"

definition RAGAgent_process_document :: "externals \<Rightarrow> agent \<Rightarrow> pyval \<Rightarrow> pyval \<times> agent" where
  "RAGAgent_process_document ext self file_path =
     (case doc_process_document ext file_path of
        Inl e \<Rightarrow> (process_document_failed e, self)
      | Inr (converted, chunks) \<Rightarrow>
          (let documents = chunk_documents ext chunks in
           case faiss_from_documents ext documents of
             Inl e \<Rightarrow> (process_document_failed e, self)
           | Inr index \<Rightarrow>
               (let images = get_images_from_document ext converted in
                (PDict [(''success'', PBool True),
                        (''message'', PStr (''Document processed successfully: ''
                                            @ py_str ext (PInt (int (length documents)))
                                            @ '' chunks created'')),
                        (''document_info'',
                           PDict [(''chunks'', PInt (int (length documents))),
                                  (''images'', PInt (int (length images)))])],
                 self\<lparr>vectorstore := Some index\<rparr>))))"

definition RAGAgent_save_index :: "externals \<Rightarrow> agent \<Rightarrow> pyval \<Rightarrow> pyval \<times> agent" where
  "RAGAgent_save_index ext self index_path =
     (case vectorstore self of
        None \<Rightarrow>
          (PDict [(''success'', PBool False),
                  (''message'', PStr ''No index to save. Process a document first.'')], self)
      | Some index \<Rightarrow>
          (case faiss_save_local ext index index_path of
             Some e \<Rightarrow>
               (PDict [(''success'', PBool False),
                       (''message'', PStr (''Error saving index: '' @ exc_str e))], self)
           | None \<Rightarrow>
               (PDict [(''success'', PBool True),
                       (''message'', PStr (''Index saved successfully to ''
                                           @ py_str ext index_path))], self)))"

definition RAGAgent_load_index :: "externals \<Rightarrow> agent \<Rightarrow> pyval \<Rightarrow> pyval \<times> agent" where
  "RAGAgent_load_index ext self index_path =
     (case faiss_load_local ext index_path of
        Inl e \<Rightarrow>
          (PDict [(''success'', PBool False),
                  (''message'', PStr (''Error loading index: '' @ exc_str e))], self)
      | Inr index \<Rightarrow>
          (PDict [(''success'', PBool True),
                  (''message'', PStr (''Index loaded successfully from ''
                                      @ py_str ext index_path))],
           self\<lparr>vectorstore := Some index\<rparr>))"

text \<open>\<open>data[key]\<close> on the request mapping: a \<open>KeyError\<close> when the key is absent.\<close>

definition dict_item :: "request \<Rightarrow> string \<Rightarrow> py_error + pyval" where
  "dict_item data key =
     (case data key of
        None \<Rightarrow> Inl (PyError ''KeyError'' ([CHR 0x27] @ key @ [CHR 0x27]))
      | Some v \<Rightarrow> Inr v)"

text \<open>One entry of \<open>source_chunks\<close>: the source of the document and its first 200 characters.\<close>

definition source_chunk :: "document \<Rightarrow> pyval" where
  "source_chunk doc =
     PDict [(''source'', kw_get (metadata doc) ''source'' (PStr ''unknown'')),
            (''content'', PStr (if length (page_content doc) > 200
                                then take 200 (page_content doc) @ ''...''
                                else page_content doc))]"

definition llm_to_use :: "agent \<Rightarrow> llm_choice" where
  "llm_to_use self =
     (case llm self of Some groq \<Rightarrow> UseChatGroq groq | None \<Rightarrow> UseConnector (llm_connector self))"

text \<open>
  The part of the \<open>try\<close> block of \<open>RAGAgent.process\<close> after the three operations, from
  \<open>query = data.get('query')\<close> on: the handling of a query.
\<close>

definition RAGAgent_handle_query :: "externals \<Rightarrow> agent \<Rightarrow> request \<Rightarrow> py_error + pyval" where
  "RAGAgent_handle_query ext self data =
     (let query = dict_get data ''query'' PNone in
      if \<not> truthy query
      then Inr (PDict [(''success'', PBool False),
                       (''message'', PStr ''No query provided''),
                       (''answer'', PNone)])
      else
        (case vectorstore self of
           None \<Rightarrow>
             Inr (PDict [(''success'', PBool False),
                         (''message'',
                            PStr ''No document has been processed. Process a document first.''),
                         (''answer'', PNone)])
         | Some index \<Rightarrow>
             (case qa_chain_invoke ext (llm_to_use self) index query of
                Inl e \<Rightarrow> Inl e
              | Inr chain \<Rightarrow>
                  (let source_chunks =
                         (case source_documents chain of
                            None \<Rightarrow> []
                          | Some docs \<Rightarrow> map source_chunk docs)
                   in case chain_answer chain of
                        None \<Rightarrow> Inl (PyError ''KeyError'' ([CHR 0x27] @ ''result'' @ [CHR 0x27]))
                      | Some answer \<Rightarrow>
                          Inr (PDict [(''success'', PBool True),
                                      (''message'', PStr ''Query processed successfully''),
                                      (''answer'', answer),
                                      (''sources'', PList source_chunks)])))))"

text \<open>The \<open>try\<close> block of \<open>RAGAgent.process\<close>: the three operations, each taken only when its
  path is in the request, then the query.\<close>

definition RAGAgent_process_try ::
  "externals \<Rightarrow> agent \<Rightarrow> request \<Rightarrow> (py_error + pyval) \<times> agent" where
  "RAGAgent_process_try ext self data =
     (let operation = dict_get data ''operation'' (PStr ''query'') in
      if operation = PStr ''process'' \<and> has_key data ''file_path''
      then (case dict_item data ''file_path'' of
              Inl e \<Rightarrow> (Inl e, self)
            | Inr file_path \<Rightarrow>
                (let (r, self') = RAGAgent_process_document ext self file_path in (Inr r, self')))
      else if operation = PStr ''save'' \<and> has_key data ''index_path''
      then (case dict_item data ''index_path'' of
              Inl e \<Rightarrow> (Inl e, self)
            | Inr index_path \<Rightarrow>
                (let (r, self') = RAGAgent_save_index ext self index_path in (Inr r, self')))
      else if operation = PStr ''load'' \<and> has_key data ''index_path''
      then (case dict_item data ''index_path'' of
              Inl e \<Rightarrow> (Inl e, self)
            | Inr index_path \<Rightarrow>
                (let (r, self') = RAGAgent_load_index ext self index_path in (Inr r, self')))
      else (RAGAgent_handle_query ext self data, self))"

definition RAGAgent_process ::
  "externals \<Rightarrow> agent \<Rightarrow> request \<Rightarrow> (py_error + pyval) \<times> agent" where
  "RAGAgent_process ext self data =
     (case RAGAgent_process_try ext self data of
        (Inl e, self') \<Rightarrow>
          (Inr (PDict [(''success'', PBool False),
                       (''message'', PStr (''Error processing query: '' @ exc_str e)),
                       (''answer'', PNone)]), self')
      | (Inr r, self') \<Rightarrow> (Inr r, self'))"

section \<open>Dispatch of the abstract method\<close>

text \<open>\<open>await agent.process(data)\<close>: the method of the agent's class. Only the document-Q&A
  agent changes its own attributes.\<close>

definition process :: "externals \<Rightarrow> agent \<Rightarrow> request \<Rightarrow> (py_error + pyval) \<times> agent" where
  "process ext self data =
     (case cls self of
        ReadmeGenerator \<Rightarrow> (ReadmeGenerator_process ext self data, self)
      | CodeAssistant \<Rightarrow> (CodeAssistant_process ext self data, self)
      | DebugAssistant \<Rightarrow> (DebugAssistant_process ext self data, self)
      | RAGAgent \<Rightarrow> RAGAgent_process ext self data
      | OtherAgent body \<Rightarrow> (body data, self))"

section \<open>The orchestrator (orchestrator.py)\<close>

text \<open>
  \<open>self.agents\<close> is a Python dict: its keys are distinct and its items keep their insertion
  order, which \<open>get_registered_agents\<close> shows. It is an association list with distinct keys;
  \<open>DAList.update\<close> overwrites in place or appends, as \<open>self.agents[agent_id] = agent\<close> does.
  An agent is held by value: every property below is about one call, so an agent registered
  under two ids is two entries.
\<close>

record orchestrator =
  agents :: "(string, agent) alist"

definition Orchestrator_init :: orchestrator where
  "Orchestrator_init = \<lparr>agents = DAList.empty\<rparr>"

definition register_agent :: "orchestrator \<Rightarrow> string \<Rightarrow> agent \<Rightarrow> orchestrator" where
  "register_agent self agent_id agent = self\<lparr>agents := DAList.update agent_id agent (agents self)\<rparr>"

definition unregister_agent :: "orchestrator \<Rightarrow> string \<Rightarrow> orchestrator" where
  "unregister_agent self agent_id =
     (if DAList.lookup (agents self) agent_id \<noteq> None
      then self\<lparr>agents := DAList.delete agent_id (agents self)\<rparr>
      else self)"

text \<open>The dict display \<open>{"id": agent_id, **info}\<close>: the items of \<open>info\<close> are stored after
  \<open>id\<close>, a later key overwriting an earlier one.\<close>

definition descriptor :: "string \<Rightarrow> (string \<times> string) list \<Rightarrow> (string \<times> string) list" where
  "descriptor agent_id info = foldl (\<lambda>d (k, v). AList.update k v d) [(''id'', agent_id)] info"

definition get_registered_agents :: "orchestrator \<Rightarrow> (string \<times> string) list list" where
  "get_registered_agents self =
     map (\<lambda>(agent_id, agent). descriptor agent_id (get_info agent)) (DAList.impl_of (agents self))"

text \<open>The result envelope of \<open>process_task\<close>.\<close>

record envelope =
  success :: bool
  message :: string
  result :: pyval

text \<open>The methods \<open>process_task\<close> calls on the agent, in the order of the calls.\<close>

datatype agent_call = Call_check_status | Call_process request

text \<open>
  The \<open>try\<close> block of \<open>process_task\<close>. It returns what the block returns or raises, the
  orchestrator afterwards, and the calls made on the agent.
\<close>

definition process_task_try ::
  "externals \<Rightarrow> orchestrator \<Rightarrow> string \<Rightarrow> request
     \<Rightarrow> (py_error + envelope) \<times> orchestrator \<times> agent_call list" where
  "process_task_try ext self agent_id data =
     (case DAList.lookup (agents self) agent_id of
        None \<Rightarrow> (Inl (PyError ''KeyError'' ([CHR 0x27] @ agent_id @ [CHR 0x27])), self, [])
      | Some agent \<Rightarrow>
          (case check_status agent of
             Inl e \<Rightarrow> (Inl e, self, [Call_check_status])
           | Inr status \<Rightarrow>
               if \<not> truthy status
               then (Inr \<lparr>success = False,
                          message = ''Agent '' @ agent_id @ '' non disponible'',
                          result = PNone\<rparr>,
                     self, [Call_check_status])
               else
                 (case process ext agent data of
                    (Inl e, agent') \<Rightarrow>
                      (Inl e, self\<lparr>agents := DAList.update agent_id agent' (agents self)\<rparr>,
                       [Call_check_status, Call_process data])
                  | (Inr r, agent') \<Rightarrow>
                      (Inr \<lparr>success = True,
                            message = ''T'' @ [CHR 0xE2] @ ''che trait'' @ [CHR 0xE9] @ ''e par ''
                                      @ agent_id,
                            result = r\<rparr>,
                       self\<lparr>agents := DAList.update agent_id agent' (agents self)\<rparr>,
                       [Call_check_status, Call_process data]))))"

text \<open>\<open>Orchestrator.process_task\<close>: the lookup before the \<open>try\<close>, the block, and the handler
  \<open>except Exception\<close>.\<close>

definition process_task ::
  "externals \<Rightarrow> orchestrator \<Rightarrow> string \<Rightarrow> request
     \<Rightarrow> (py_error + envelope) \<times> orchestrator \<times> agent_call list" where
  "process_task ext self agent_id data =
     (if DAList.lookup (agents self) agent_id = None
      then (Inr \<lparr>success = False,
                 message = ''Agent non trouv'' @ [CHR 0xE9] @ '': '' @ agent_id,
                 result = PNone\<rparr>,
            self, [])
      else
        (case process_task_try ext self agent_id data of
           (Inl e, self', calls) \<Rightarrow>
             (Inr \<lparr>success = False,
                   message = ''Erreur lors du traitement: '' @ exc_str e,
                   result = PNone\<rparr>,
              self', calls)
         | (Inr r, self', calls) \<Rightarrow> (Inr r, self', calls)))"

section \<open>Construction of the agents and of the registry (main.py)\<close>

text \<open>The constructors, with the names and descriptions they set.\<close>

definition BaseAgent_init :: "agent_class \<Rightarrow> connector option \<Rightarrow> agent" where
  "BaseAgent_init c conn =
     \<lparr>cls = c, name = ''BaseAgent'', description = ''Agent g'' @ [CHR 0xE9] @ ''n'' @ [CHR 0xE9] @ ''rique'',
      llm_connector = conn, vectorstore = None, llm = None\<rparr>"

definition ReadmeGenerator_init :: "connector option \<Rightarrow> agent" where
  "ReadmeGenerator_init conn =
     (BaseAgent_init ReadmeGenerator conn)
       \<lparr>name := ''ReadmeGenerator'',
        description := ''Agent sp'' @ [CHR 0xE9] @ ''cialis'' @ [CHR 0xE9] @ '' dans la g'' @ [CHR 0xE9]
                        @ ''n'' @ [CHR 0xE9] @ ''ration de README pour les projets''\<rparr>"

definition CodeAssistant_init :: "connector option \<Rightarrow> agent" where
  "CodeAssistant_init conn =
     (BaseAgent_init CodeAssistant conn)
       \<lparr>name := ''CodeAssistant'',
        description := ''Agent sp'' @ [CHR 0xE9] @ ''cialis'' @ [CHR 0xE9] @ '' dans l'am'' @ [CHR 0xE9]
                        @ ''lioration et le d'' @ [CHR 0xE9] @ ''bogage de code Python''\<rparr>"

definition DebugAssistant_init :: "connector option \<Rightarrow> agent" where
  "DebugAssistant_init conn =
     (BaseAgent_init DebugAssistant conn)
       \<lparr>name := ''DebugAssistant'',
        description := ''Agent sp'' @ [CHR 0xE9] @ ''cialis'' @ [CHR 0xE9] @ '' dans l'analyse et le d''
                        @ [CHR 0xE9] @ ''bogage de code Python''\<rparr>"

text \<open>\<open>RAGAgent.__init__\<close>: no index yet; a ChatGroq object only when there is an API key and
  no connector. \<open>groq_api_key\<close> is the key after the fallback on the environment.\<close>

definition RAGAgent_init :: "connector option \<Rightarrow> string \<Rightarrow> agent" where
  "RAGAgent_init conn groq_api_key =
     (BaseAgent_init RAGAgent conn)
       \<lparr>name := ''RAGAgent'',
        description := ''Agent for document Q&A using Retrieval-Augmented Generation'',
        vectorstore := None,
        llm := (if groq_api_key \<noteq> [] \<and> conn = None then Some (ChatGroq groq_api_key) else None)\<rparr>"

text \<open>The registry of main.py: three agents on the Ollama connector, the document-Q&A agent
  on the Groq connector, which is \<open>None\<close> without an API key.\<close>

definition main_orchestrator :: "connector \<Rightarrow> connector option \<Rightarrow> string \<Rightarrow> orchestrator" where
  "main_orchestrator ollama_connector groq_connector groq_api_key =
     register_agent
       (register_agent
          (register_agent
             (register_agent Orchestrator_init
                ''readme'' (ReadmeGenerator_init (Some ollama_connector)))
             ''code'' (CodeAssistant_init (Some ollama_connector)))
          ''debug'' (DebugAssistant_init (Some ollama_connector)))
       ''rag'' (RAGAgent_init groq_connector groq_api_key)"

section \<open>Sample servers, adapters and library behaviour\<close>

text \<open>Four Ollama servers: one that cannot be reached, one that answers with an error
  status, one whose body is not JSON, and one that answers 200 with a JSON object that has
  no \<open>response\<close> entry.\<close>

definition ollama_unreachable :: ollama where
  "ollama_unreachable =
     \<lparr>model_name = ''mistral'', base_url = ''http://localhost:11434'',
      client_post = (\<lambda>url payload. Inl (PyError ''ConnectError'' ''All connection attempts failed''))\<rparr>"

definition ollama_error_status :: ollama where
  "ollama_error_status =
     \<lparr>model_name = ''mistral'', base_url = ''http://localhost:11434'',
      client_post = (\<lambda>url payload.
         Inr \<lparr>raise_for_status = Some (PyError ''HTTPStatusError'' ''Server error 500''),
              json = Inr (PDict [(''error'', PStr ''internal'')])\<rparr>)\<rparr>"

definition ollama_not_json :: ollama where
  "ollama_not_json =
     \<lparr>model_name = ''mistral'', base_url = ''http://localhost:11434'',
      client_post = (\<lambda>url payload.
         Inr \<lparr>raise_for_status = None,
              json = Inl (PyError ''JSONDecodeError'' ''Expecting value: line 1 column 1 (char 0)'')\<rparr>)\<rparr>"

definition ollama_no_response_key :: ollama where
  "ollama_no_response_key =
     \<lparr>model_name = ''mistral'', base_url = ''http://localhost:11434'',
      client_post = (\<lambda>url payload.
         Inr \<lparr>raise_for_status = None,
              json = Inr (PDict [(''error'', PStr ''model not found'')])\<rparr>)\<rparr>"

text \<open>Two adapters with a synchronous \<open>check_status\<close>: one that reports \<open>True\<close> and
  generates a fixed answer, one that reports \<open>False\<close>.\<close>

definition online_connector :: connector where
  "online_connector =
     \<lparr>check_status_call = Inr (PBool True),
      generate_call = (\<lambda>prompt kw. Inr (PStr ''ok''))\<rparr>"

definition offline_connector :: connector where
  "offline_connector =
     \<lparr>check_status_call = Inr (PBool False),
      generate_call = (\<lambda>prompt kw. Inl (PyError ''ConnectError'' ''All connection attempts failed''))\<rparr>"

text \<open>Library behaviour for the examples: every prompt is built, no document can be
  converted, no index can be loaded.\<close>

definition sample_externals :: externals where
  "sample_externals =
     \<lparr>py_str_other = (\<lambda>v. ''?''),
      build_readme_prompt = (\<lambda>a b c d e. Inr ''readme prompt''),
      build_code_prompt = (\<lambda>a b c d. Inr ''code prompt''),
      build_debug_prompt = (\<lambda>a b c. Inr ''debug prompt''),
      doc_process_document = (\<lambda>p. Inl (PyError ''FileNotFoundError'' ''no such file'')),
      get_images_from_document = (\<lambda>c. []),
      faiss_from_documents = (\<lambda>ds. Inr (FaissIndex 0)),
      faiss_save_local = (\<lambda>ix p. None),
      faiss_load_local = (\<lambda>p. Inl (PyError ''RuntimeError'' ''could not open index'')),
      qa_chain_invoke = (\<lambda>l ix q. Inr \<lparr>chain_answer = Some (PStr ''answer''),
                                          source_documents = Some []\<rparr>)\<rparr>"

text \<open>A subclass of \<open>BaseAgent\<close> whose \<open>process\<close> raises.\<close>

definition raising_agent :: agent where
  "raising_agent =
     BaseAgent_init (OtherAgent (\<lambda>data. Inl (PyError ''ValueError'' ''bad request'')))
       (Some online_connector)"

section \<open>The registry\<close>

lemma delete_update_absent:
  "DAList.lookup xs k = None \<Longrightarrow> DAList.delete k (DAList.update k v xs) = xs"
  by transfer (simp add: delete_update_same map_of_eq_None_iff)

lemma update_present:
  "DAList.lookup xs k = Some v \<Longrightarrow> DAList.update k v xs = xs"
  by transfer (simp add: update_triv)

lemma lookup_register_agent:
  "DAList.lookup (agents (register_agent self k agent)) k' =
     (if k = k' then Some agent else DAList.lookup (agents self) k')"
  by (simp add: register_agent_def DAList.lookup_update)

lemma lookup_Orchestrator_init: "DAList.lookup (agents Orchestrator_init) k = None"
  by (simp add: Orchestrator_init_def)

lemma main_orchestrator_code:
  "DAList.lookup (agents (main_orchestrator oc gc key)) ''code'' = Some (CodeAssistant_init (Some oc))"
  by (simp add: main_orchestrator_def lookup_register_agent)

lemma main_orchestrator_rag:
  "DAList.lookup (agents (main_orchestrator oc gc key)) ''rag'' = Some (RAGAgent_init gc key)"
  by (simp add: main_orchestrator_def lookup_register_agent)

lemma main_orchestrator_other:
  "k \<notin> set [''readme'', ''code'', ''debug'', ''rag''] \<Longrightarrow>
   DAList.lookup (agents (main_orchestrator oc gc key)) k = None"
  by (auto simp: main_orchestrator_def lookup_register_agent lookup_Orchestrator_init)

text \<open>
  Claim C3, as stated: registering an agent under an id and unregistering that id at once
  restores the registry, for every registry, id and agent. It is false when the id was
  already registered: the registration overwrites the earlier agent and the removal deletes
  the entry, so the earlier agent is lost.
\<close>

theorem register_unregister_overwrite:
  "unregister_agent
     (register_agent (register_agent Orchestrator_init ''code'' (CodeAssistant_init None))
        ''code'' (CodeAssistant_init (Some online_connector)))
     ''code''
   \<noteq> register_agent Orchestrator_init ''code'' (CodeAssistant_init None)"
  by (simp add: unregister_agent_def register_agent_def Orchestrator_init_def alist_eq_iff
      DAList.update.rep_eq DAList.delete.rep_eq DAList.empty.rep_eq)

text \<open>
  Claim C3, amended: for an id that is not registered, registering an agent under it and
  unregistering it at once gives back exactly the registry of before (the same entries in
  the same order).
\<close>

theorem register_unregister_fresh_id:
  "DAList.lookup (agents self) agent_id = None \<Longrightarrow>
   unregister_agent (register_agent self agent_id agent) agent_id = self"
  by (simp add: unregister_agent_def register_agent_def delete_update_absent)

theorem register_unregister_fresh_id_witness:
  "DAList.lookup (agents (main_orchestrator online_connector None [])) ''translate'' = None
   \<and> unregister_agent
       (register_agent (main_orchestrator online_connector None []) ''translate'' raising_agent)
       ''translate''
     = main_orchestrator online_connector None []"
  using register_unregister_fresh_id
          [of "main_orchestrator online_connector None []" "''translate''" raising_agent]
  by (simp add: main_orchestrator_other)

lemma descriptor_get_info:
  "descriptor agent_id (get_info agent) = (''id'', agent_id) # get_info agent"
  by (simp add: descriptor_def get_info_def)

lemma filter_key_distinct:
  "distinct (map fst xs) \<Longrightarrow> map_of xs k = Some v \<Longrightarrow> filter (\<lambda>p. fst p = k) xs = [(k, v)]"
proof (induction xs)
  case Nil
  then show ?case by simp
next
  case (Cons p xs)
  obtain k' v' where p: "p = (k', v')" by (cases p)
  show ?case
  proof (cases "k' = k")
    case True
    with Cons.prems p have "v' = v" and "k \<notin> fst ` set xs" by auto
    then have "filter (\<lambda>p. fst p = k) xs = []"
      by (auto simp: filter_empty_conv)
    with True p \<open>v' = v\<close> show ?thesis by simp
  next
    case False
    with Cons p show ?thesis by simp
  qed
qed

text \<open>
  Claim C9: \<open>get_registered_agents\<close> has exactly one descriptor for each registered id, made
  of the id followed by exactly the name and the description of the agent's \<open>get_info()\<close>, and
  none for an id that is not registered. The descriptors come in the order of the registry,
  whose ids are distinct.
\<close>

theorem get_registered_agents_descriptors:
  "get_registered_agents self =
     map (\<lambda>(agent_id, agent). (''id'', agent_id) # get_info agent) (DAList.impl_of (agents self))
   \<and> distinct (map fst (DAList.impl_of (agents self)))
   \<and> (\<forall>agent_id agent. DAList.lookup (agents self) agent_id = Some agent \<longrightarrow>
        filter (\<lambda>d. map_of d ''id'' = Some agent_id) (get_registered_agents self)
          = [(''id'', agent_id) # get_info agent])
   \<and> (\<forall>agent_id. DAList.lookup (agents self) agent_id = None \<longrightarrow>
        filter (\<lambda>d. map_of d ''id'' = Some agent_id) (get_registered_agents self) = [])"
proof -
  let ?xs = "DAList.impl_of (agents self)"
  let ?d = "\<lambda>(agent_id, agent). (''id'', agent_id) # get_info agent"
  have eq: "get_registered_agents self = map ?d ?xs"
    by (simp add: get_registered_agents_def descriptor_get_info)
  have filt: "filter (\<lambda>d. map_of d ''id'' = Some agent_id) (get_registered_agents self)
      = map ?d (filter (\<lambda>p. fst p = agent_id) ?xs)" for agent_id
    unfolding eq by (induction ?xs) (auto simp: filter_map comp_def split_def)
  have one: "filter (\<lambda>d. map_of d ''id'' = Some agent_id) (get_registered_agents self)
          = [(''id'', agent_id) # get_info agent]"
    if "DAList.lookup (agents self) agent_id = Some agent" for agent_id agent
    using that filter_key_distinct[of ?xs agent_id agent]
    by (simp add: filt DAList.lookup.rep_eq)
  have none: "filter (\<lambda>d. map_of d ''id'' = Some agent_id) (get_registered_agents self) = []"
    if "DAList.lookup (agents self) agent_id = None" for agent_id
  proof -
    from that have "agent_id \<notin> fst ` set ?xs"
      by (simp add: DAList.lookup.rep_eq map_of_eq_None_iff)
    then have "filter (\<lambda>p. fst p = agent_id) ?xs = []"
      by (auto simp: filter_empty_conv)
    then show ?thesis by (simp add: filt)
  qed
  show ?thesis using eq one none by simp
qed

theorem get_registered_agents_descriptors_witness:
  "filter (\<lambda>d. map_of d ''id'' = Some ''rag'')
      (get_registered_agents (main_orchestrator online_connector None []))
     = [[(''id'', ''rag''), (''name'', ''RAGAgent''),
         (''description'', ''Agent for document Q&A using Retrieval-Augmented Generation'')]]
   \<and> filter (\<lambda>d. map_of d ''id'' = Some ''translate'')
      (get_registered_agents (main_orchestrator online_connector None [])) = []"
proof -
  note d = get_registered_agents_descriptors [of "main_orchestrator online_connector None []"]
  have absent: "DAList.lookup (agents (main_orchestrator online_connector None [])) ''translate'' = None"
    by (simp add: main_orchestrator_other)
  from d [THEN conjunct2, THEN conjunct2, THEN conjunct1, rule_format, OF main_orchestrator_rag]
    d [THEN conjunct2, THEN conjunct2, THEN conjunct2, rule_format, OF absent]
  show ?thesis
    by (simp add: get_info_def RAGAgent_init_def BaseAgent_init_def)
qed

section \<open>Dispatch of a task\<close>

text \<open>
  Claim C4: for an id that is not in the registry, \<open>process_task\<close> returns the envelope with
  \<open>success\<close> false, the not-found message for that id and a null result, whatever the
  request holds; the registry is unchanged and no agent is called.
\<close>

theorem process_task_agent_not_found:
  "DAList.lookup (agents self) agent_id = None \<Longrightarrow>
   process_task ext self agent_id data =
     (Inr \<lparr>success = False,
           message = ''Agent non trouv'' @ [CHR 0xE9] @ '': '' @ agent_id,
           result = PNone\<rparr>,
      self, [])"
  by (simp add: process_task_def)

theorem process_task_agent_not_found_witness:
  "process_task sample_externals (main_orchestrator online_connector None []) ''translate''
       [''text'' \<mapsto> PStr ''bonjour'']
     = (Inr \<lparr>success = False,
             message = ''Agent non trouv'' @ [CHR 0xE9] @ '': translate'',
             result = PNone\<rparr>,
        main_orchestrator online_connector None [], [])"
  using process_task_agent_not_found
          [of "main_orchestrator online_connector None []" "''translate''" sample_externals
              "[''text'' \<mapsto> PStr ''bonjour'']"]
  by (simp add: main_orchestrator_other)



subsection \<open>What the try block and its handler do\<close>



lemma process_task_process_returns:
  "DAList.lookup (agents self) agent_id = Some agent \<Longrightarrow>
   check_status agent = Inr status \<Longrightarrow>
   truthy status \<Longrightarrow>
   process ext agent data = (Inr r, agent') \<Longrightarrow>
   process_task ext self agent_id data =
     (Inr \<lparr>success = True,
           message = ''T'' @ [CHR 0xE2] @ ''che trait'' @ [CHR 0xE9] @ ''e par '' @ agent_id,
           result = r\<rparr>,
      self\<lparr>agents := DAList.update agent_id agent' (agents self)\<rparr>,
      [Call_check_status, Call_process data])"
  by (simp add: process_task_def process_task_try_def)


subsection \<open>The agents of the repository never raise\<close>








subsection \<open>The code assistant on an empty code\<close>

lemma CodeAssistant_process_code_missing:
  "CodeAssistant_process ext self [''code'' \<mapsto> PStr '''', ''task_type'' \<mapsto> PStr ''correction'']
     = Inr (PDict [(''improved_code'', PStr ''''),
                   (''explanation'', PStr (''Aucun code fourni '' @ [CHR 0xE0] @ '' am''
                                            @ [CHR 0xE9] @ ''liorer.'')),
                   (''success'', PBool False),
                   (''message'', PStr ''Erreur: code manquant'')])"
  by (simp add: CodeAssistant_process_def CodeAssistant_process_try_def dict_get_def)

text \<open>
  Claim C6: with a code assistant registered under \<open>code\<close> whose status check passes,
  \<open>process_task("code", {code: "", task_type: "correction"})\<close> returns an outer envelope with
  \<open>success\<close> true whose result is the agent's own refusal: \<open>success\<close> false and the message
  \<open>Erreur: code manquant\<close>. The agent was called and the registry is unchanged.
\<close>

theorem process_task_code_missing:
  assumes "DAList.lookup (agents self) ''code'' = Some agent"
    and "cls agent = CodeAssistant"
    and "check_status agent = Inr status"
    and "truthy status"
  shows "process_task ext self ''code'' [''code'' \<mapsto> PStr '''', ''task_type'' \<mapsto> PStr ''correction'']
    = (Inr \<lparr>success = True,
            message = ''T'' @ [CHR 0xE2] @ ''che trait'' @ [CHR 0xE9] @ ''e par code'',
            result = PDict [(''improved_code'', PStr ''''),
                            (''explanation'', PStr (''Aucun code fourni '' @ [CHR 0xE0] @ '' am''
                                                     @ [CHR 0xE9] @ ''liorer.'')),
                            (''success'', PBool False),
                            (''message'', PStr ''Erreur: code manquant'')]\<rparr>,
       self,
       [Call_check_status,
        Call_process [''code'' \<mapsto> PStr '''', ''task_type'' \<mapsto> PStr ''correction'']])"
proof -
  let ?data = "[''code'' \<mapsto> PStr '''', ''task_type'' \<mapsto> PStr ''correction'']"
  have "process ext agent ?data
          = (Inr (PDict [(''improved_code'', PStr ''''),
                         (''explanation'', PStr (''Aucun code fourni '' @ [CHR 0xE0] @ '' am''
                                                  @ [CHR 0xE9] @ ''liorer.'')),
                         (''success'', PBool False),
                         (''message'', PStr ''Erreur: code manquant'')]), agent)"
    using assms(2) by (simp add: process_def CodeAssistant_process_code_missing)
  from process_task_process_returns [OF assms(1,3,4) this]
  show ?thesis using assms(1) by (simp add: update_present)
qed

text \<open>An instance is the registry of main.py: the code assistant is bound to the Ollama
  connector, whose \<open>check_status()\<close> is a coroutine object, a true value, whether or not
  the server can be reached.\<close>

theorem process_task_code_missing_witness:
  "fst (process_task sample_externals
          (main_orchestrator (OllamaConnector ollama_unreachable) None []) ''code''
          [''code'' \<mapsto> PStr '''', ''task_type'' \<mapsto> PStr ''correction''])
     = Inr \<lparr>success = True,
            message = ''T'' @ [CHR 0xE2] @ ''che trait'' @ [CHR 0xE9] @ ''e par code'',
            result = PDict [(''improved_code'', PStr ''''),
                            (''explanation'', PStr (''Aucun code fourni '' @ [CHR 0xE0] @ '' am''
                                                     @ [CHR 0xE9] @ ''liorer.'')),
                            (''success'', PBool False),
                            (''message'', PStr ''Erreur: code manquant'')]\<rparr>"
proof -
  let ?agent = "CodeAssistant_init (Some (OllamaConnector ollama_unreachable))"
  have "cls ?agent = CodeAssistant"
    by (simp add: CodeAssistant_init_def BaseAgent_init_def)
  moreover have "check_status ?agent = Inr (PObj ''coroutine'')"
    by (simp add: check_status_def CodeAssistant_init_def BaseAgent_init_def OllamaConnector_def)
  moreover have "truthy (PObj ''coroutine'')"
    by simp
  ultimately show ?thesis
    using process_task_code_missing
            [where ext = sample_externals and status = "PObj ''coroutine''",
             OF main_orchestrator_code [of "OllamaConnector ollama_unreachable" None "[]"]]
    by simp
qed

section \<open>The document-Q&A agent\<close>

lemma RAGAgent_process_try_query:
  assumes "dict_get data ''operation'' (PStr ''query'') \<noteq> PStr ''process''
           \<or> \<not> has_key data ''file_path''"
    and "dict_get data ''operation'' (PStr ''query'') \<noteq> PStr ''save''
         \<or> \<not> has_key data ''index_path''"
    and "dict_get data ''operation'' (PStr ''query'') \<noteq> PStr ''load''
         \<or> \<not> has_key data ''index_path''"
  shows "RAGAgent_process_try ext self data = (RAGAgent_handle_query ext self data, self)"
  using assms by (auto simp: RAGAgent_process_try_def Let_def)

lemma handle_query_no_index:
  "truthy (dict_get data ''query'' PNone) \<Longrightarrow> vectorstore self = None \<Longrightarrow>
   RAGAgent_handle_query ext self data
     = Inr (PDict [(''success'', PBool False),
                   (''message'', PStr ''No document has been processed. Process a document first.''),
                   (''answer'', PNone)])"
  by (simp add: RAGAgent_handle_query_def)

lemma handle_query_no_query:
  "\<not> truthy (dict_get data ''query'' PNone) \<Longrightarrow>
   RAGAgent_handle_query ext self data
     = Inr (PDict [(''success'', PBool False),
                   (''message'', PStr ''No query provided''),
                   (''answer'', PNone)])"
  by (simp add: RAGAgent_handle_query_def)

lemma handle_query_restrict:
  "RAGAgent_handle_query ext self (data |` {''query''}) = RAGAgent_handle_query ext self data"
  by (simp add: RAGAgent_handle_query_def dict_get_def)

text \<open>
  Claim C7, as stated: \<open>process_task("rag", {query: "X"})\<close> with no document processed
  returns an inner result with \<open>success\<close> false and a null answer. It is false when the
  status check of the agent does not pass: the orchestrator answers itself and the result
  is null, there is no inner result. That is so when the adapter reports \<open>False\<close>, and in
  the registry of main.py without a Groq key, where the agent has no adapter at all.
\<close>

theorem rag_query_no_index_adapter_down:
  "vectorstore (RAGAgent_init (Some offline_connector) ''key'') = None
   \<and> fst (process_task sample_externals
            (main_orchestrator online_connector (Some offline_connector) ''key'') ''rag''
            [''query'' \<mapsto> PStr ''X''])
       = Inr \<lparr>success = False, message = ''Agent rag non disponible'', result = PNone\<rparr>
   \<and> vectorstore (RAGAgent_init None []) = None
   \<and> fst (process_task sample_externals (main_orchestrator online_connector None []) ''rag''
            [''query'' \<mapsto> PStr ''X''])
       = Inr \<lparr>success = False,
              message = ''Erreur lors du traitement: ''
                        @ exc_str (none_has_no_attribute ''check_status''),
              result = PNone\<rparr>"
  by (simp add: process_task_def process_task_try_def main_orchestrator_rag check_status_def
      RAGAgent_init_def BaseAgent_init_def offline_connector_def)

text \<open>
  Claim C7, amended: with a document-Q&A agent registered under \<open>rag\<close> that holds no index
  and whose status check passes, \<open>process_task("rag", {query: q})\<close> for a non-empty \<open>q\<close>
  returns an outer envelope with \<open>success\<close> true whose result is the agent's report:
  \<open>success\<close> false, the no-document message and a null answer. Nothing is raised and the
  registry is unchanged.
\<close>

theorem process_task_rag_no_index:
  assumes "DAList.lookup (agents self) ''rag'' = Some agent"
    and "cls agent = RAGAgent"
    and "vectorstore agent = None"
    and "check_status agent = Inr status"
    and "truthy status"
    and "q \<noteq> []"
  shows "process_task ext self ''rag'' [''query'' \<mapsto> PStr q]
    = (Inr \<lparr>success = True,
            message = ''T'' @ [CHR 0xE2] @ ''che trait'' @ [CHR 0xE9] @ ''e par rag'',
            result = PDict [(''success'', PBool False),
                            (''message'',
                               PStr ''No document has been processed. Process a document first.''),
                            (''answer'', PNone)]\<rparr>,
       self,
       [Call_check_status, Call_process [''query'' \<mapsto> PStr q]])"
proof -
  let ?data = "[''query'' \<mapsto> PStr q]"
  have op: "dict_get ?data ''operation'' (PStr ''query'') = PStr ''query''"
    by (simp add: dict_get_def)
  have "RAGAgent_process_try ext agent ?data = (RAGAgent_handle_query ext agent ?data, agent)"
    by (rule RAGAgent_process_try_query) (simp_all add: op)
  moreover have "RAGAgent_handle_query ext agent ?data
      = Inr (PDict [(''success'', PBool False),
                    (''message'', PStr ''No document has been processed. Process a document first.''),
                    (''answer'', PNone)])"
    using assms(3,6) by (intro handle_query_no_index) (simp_all add: dict_get_def)
  ultimately have "process ext agent ?data
      = (Inr (PDict [(''success'', PBool False),
                     (''message'', PStr ''No document has been processed. Process a document first.''),
                     (''answer'', PNone)]), agent)"
    using assms(2) by (simp add: process_def RAGAgent_process_def)
  from process_task_process_returns [OF assms(1,4,5) this]
  show ?thesis using assms(1) by (simp add: update_present)
qed

theorem process_task_rag_no_index_witness:
  "fst (process_task sample_externals
          (main_orchestrator online_connector (Some online_connector) ''key'') ''rag''
          [''query'' \<mapsto> PStr ''X''])
     = Inr \<lparr>success = True,
            message = ''T'' @ [CHR 0xE2] @ ''che trait'' @ [CHR 0xE9] @ ''e par rag'',
            result = PDict [(''success'', PBool False),
                            (''message'',
                               PStr ''No document has been processed. Process a document first.''),
                            (''answer'', PNone)]\<rparr>"
proof -
  let ?agent = "RAGAgent_init (Some online_connector) ''key''"
  have "cls ?agent = RAGAgent" and "vectorstore ?agent = None"
    by (simp_all add: RAGAgent_init_def BaseAgent_init_def)
  moreover have "check_status ?agent = Inr (PBool True)"
    by (simp add: check_status_def RAGAgent_init_def BaseAgent_init_def online_connector_def)
  moreover have "truthy (PBool True)" and "''X'' \<noteq> []"
    by simp_all
  ultimately show ?thesis
    using process_task_rag_no_index
            [where ext = sample_externals and status = "PBool True" and q = "''X''",
             OF main_orchestrator_rag [of online_connector "Some online_connector" "''key''"]]
    by simp
qed

text \<open>
  Claim C10: a request whose operation is \<open>process\<close> without a \<open>file_path\<close> key, or \<open>save\<close> or
  \<open>load\<close> without an \<open>index_path\<close> key, is handled as a query: the \<open>try\<close> block does what
  the query part does, so the result is that of the request reduced to its \<open>query\<close> entry,
  and the agent is unchanged. In particular the answer is the no-query report when \<open>query\<close>
  is absent or false, and the no-document report when there is a query and no index; the
  missing path is reported nowhere.
\<close>

theorem rag_missing_path_is_query:
  assumes "(dict_get data ''operation'' (PStr ''query'') = PStr ''process''
            \<and> \<not> has_key data ''file_path'')
         \<or> (dict_get data ''operation'' (PStr ''query'') = PStr ''save''
            \<and> \<not> has_key data ''index_path'')
         \<or> (dict_get data ''operation'' (PStr ''query'') = PStr ''load''
            \<and> \<not> has_key data ''index_path'')"
  shows "RAGAgent_process_try ext self data = (RAGAgent_handle_query ext self data, self)
     \<and> RAGAgent_process ext self data = RAGAgent_process ext self (data |` {''query''})
     \<and> (\<not> truthy (dict_get data ''query'' PNone) \<longrightarrow>
          RAGAgent_process ext self data
            = (Inr (PDict [(''success'', PBool False),
                           (''message'', PStr ''No query provided''),
                           (''answer'', PNone)]), self))
     \<and> (truthy (dict_get data ''query'' PNone) \<and> vectorstore self = None \<longrightarrow>
          RAGAgent_process ext self data
            = (Inr (PDict [(''success'', PBool False),
                           (''message'',
                              PStr ''No document has been processed. Process a document first.''),
                           (''answer'', PNone)]), self))"
proof -
  have a: "RAGAgent_process_try ext self data = (RAGAgent_handle_query ext self data, self)"
    using assms by (intro RAGAgent_process_try_query) auto
  have b: "RAGAgent_process_try ext self (data |` {''query''})
         = (RAGAgent_handle_query ext self (data |` {''query''}), self)"
    by (intro RAGAgent_process_try_query) (simp_all add: dict_get_def has_key_def restrict_map_def)
  have c: "RAGAgent_process ext self data = RAGAgent_process ext self (data |` {''query''})"
    by (simp add: RAGAgent_process_def a b handle_query_restrict)
  show ?thesis
    using a c by (simp add: RAGAgent_process_def handle_query_no_query handle_query_no_index)
qed

theorem rag_missing_path_is_query_witness:
  "RAGAgent_process sample_externals (RAGAgent_init None [])
       [''operation'' \<mapsto> PStr ''process'', ''query'' \<mapsto> PStr ''What is it about?'']
     = (Inr (PDict [(''success'', PBool False),
                    (''message'',
                       PStr ''No document has been processed. Process a document first.''),
                    (''answer'', PNone)]), RAGAgent_init None [])
   \<and> RAGAgent_process sample_externals (RAGAgent_init None [])
       [''operation'' \<mapsto> PStr ''save'']
     = (Inr (PDict [(''success'', PBool False),
                    (''message'', PStr ''No query provided''),
                    (''answer'', PNone)]), RAGAgent_init None [])"
proof -
  let ?d1 = "[''operation'' \<mapsto> PStr ''process'', ''query'' \<mapsto> PStr ''What is it about?'']"
  let ?d2 = "[''operation'' \<mapsto> PStr ''save'']"
  have h1: "(dict_get ?d1 ''operation'' (PStr ''query'') = PStr ''process''
            \<and> \<not> has_key ?d1 ''file_path'')
         \<or> (dict_get ?d1 ''operation'' (PStr ''query'') = PStr ''save''
            \<and> \<not> has_key ?d1 ''index_path'')
         \<or> (dict_get ?d1 ''operation'' (PStr ''query'') = PStr ''load''
            \<and> \<not> has_key ?d1 ''index_path'')"
    by (simp add: dict_get_def has_key_def)
  have h2: "(dict_get ?d2 ''operation'' (PStr ''query'') = PStr ''process''
            \<and> \<not> has_key ?d2 ''file_path'')
         \<or> (dict_get ?d2 ''operation'' (PStr ''query'') = PStr ''save''
            \<and> \<not> has_key ?d2 ''index_path'')
         \<or> (dict_get ?d2 ''operation'' (PStr ''query'') = PStr ''load''
            \<and> \<not> has_key ?d2 ''index_path'')"
    by (simp add: dict_get_def has_key_def)
  have q1: "truthy (dict_get ?d1 ''query'' PNone)" and q2: "\<not> truthy (dict_get ?d2 ''query'' PNone)"
    by (simp_all add: dict_get_def)
  have v: "vectorstore (RAGAgent_init None []) = None"
    by (simp add: RAGAgent_init_def BaseAgent_init_def)
  from rag_missing_path_is_query [OF h1, of sample_externals "RAGAgent_init None []"] q1 v
    rag_missing_path_is_query [OF h2, of sample_externals "RAGAgent_init None []"] q2
  show ?thesis by blast
qed

section \<open>The Ollama adapter\<close>

text \<open>
  Claim C2, as stated: \<open>generate\<close> fails whenever the network call fails or the response is
  malformed, and never returns an empty string as a silent success. It is false for a
  response that decodes to a JSON object without a \<open>response\<close> entry: the adapter logs the
  unexpected format and returns the empty string.
\<close>

theorem generate_empty_on_missing_response:
  "OllamaConnector_generate ollama_no_response_key ''Bonjour'' PNone (PFloat 0.7) (PInt 2000) []
     = Inr (PStr '''')"
  by (simp add: OllamaConnector_generate_def ollama_no_response_key_def)

text \<open>
  Claim C2, amended: for every prompt and every option, \<open>generate\<close> raises the exception of
  the network call, of the status check or of the JSON decoding when one of them raises,
  and a \<open>TypeError\<close> when the decoded body is not a container; when the decoded body is a
  container without \<open>response\<close>, it returns the empty string; otherwise it returns or raises
  what \<open>result["response"]\<close> does. \<open>outcome\<close> is what the POST request does.
\<close>

theorem generate_propagates_failures:
  assumes "client_post self (base_url self @ ''/api/generate'')
             (build_payload self prompt system_message temperature max_tokens kwargs) = outcome"
  shows "(outcome = Inl e \<longrightarrow>
            OllamaConnector_generate self prompt system_message temperature max_tokens kwargs
              = Inl e)
     \<and> (outcome = Inr response \<and> raise_for_status response = Some e \<longrightarrow>
            OllamaConnector_generate self prompt system_message temperature max_tokens kwargs
              = Inl e)
     \<and> (outcome = Inr response \<and> raise_for_status response = None \<and> json response = Inl e \<longrightarrow>
            OllamaConnector_generate self prompt system_message temperature max_tokens kwargs
              = Inl e)
     \<and> (outcome = Inr response \<and> raise_for_status response = None \<and> json response = Inr body
          \<and> py_contains ''response'' body = Inl e \<longrightarrow>
            OllamaConnector_generate self prompt system_message temperature max_tokens kwargs
              = Inl e)
     \<and> (outcome = Inr response \<and> raise_for_status response = None \<and> json response = Inr body
          \<and> py_contains ''response'' body = Inr False \<longrightarrow>
            OllamaConnector_generate self prompt system_message temperature max_tokens kwargs
              = Inr (PStr ''''))
     \<and> (outcome = Inr response \<and> raise_for_status response = None \<and> json response = Inr body
          \<and> py_contains ''response'' body = Inr True \<longrightarrow>
            OllamaConnector_generate self prompt system_message temperature max_tokens kwargs
              = py_getitem body ''response'')"
  using assms by (simp add: OllamaConnector_generate_def)

theorem generate_propagates_failures_witness:
  "OllamaConnector_generate ollama_unreachable ''Bonjour'' PNone (PFloat 0.7) (PInt 2000) []
     = Inl (PyError ''ConnectError'' ''All connection attempts failed'')
   \<and> OllamaConnector_generate ollama_error_status ''Bonjour'' PNone (PFloat 0.7) (PInt 2000) []
     = Inl (PyError ''HTTPStatusError'' ''Server error 500'')
   \<and> OllamaConnector_generate ollama_not_json ''Bonjour'' PNone (PFloat 0.7) (PInt 2000) []
     = Inl (PyError ''JSONDecodeError'' ''Expecting value: line 1 column 1 (char 0)'')
   \<and> OllamaConnector_generate ollama_no_response_key ''Bonjour'' PNone (PFloat 0.7) (PInt 2000) []
     = Inr (PStr '''')"
proof -
  let ?payload = "\<lambda>self. build_payload self ''Bonjour'' PNone (PFloat 0.7) (PInt 2000) []"
  let ?url = "\<lambda>self. base_url self @ ''/api/generate''"
  have p1: "client_post ollama_unreachable (?url ollama_unreachable) (?payload ollama_unreachable)
              = Inl (PyError ''ConnectError'' ''All connection attempts failed'')"
    by (simp add: ollama_unreachable_def)
  have p2: "client_post ollama_error_status (?url ollama_error_status) (?payload ollama_error_status)
              = Inr \<lparr>raise_for_status = Some (PyError ''HTTPStatusError'' ''Server error 500''),
                     json = Inr (PDict [(''error'', PStr ''internal'')])\<rparr>"
    by (simp add: ollama_error_status_def)
  have p3: "client_post ollama_not_json (?url ollama_not_json) (?payload ollama_not_json)
              = Inr \<lparr>raise_for_status = None,
                     json = Inl (PyError ''JSONDecodeError''
                                   ''Expecting value: line 1 column 1 (char 0)'')\<rparr>"
    by (simp add: ollama_not_json_def)
  have p4: "client_post ollama_no_response_key (?url ollama_no_response_key)
              (?payload ollama_no_response_key)
              = Inr \<lparr>raise_for_status = None,
                     json = Inr (PDict [(''error'', PStr ''model not found'')])\<rparr>"
    by (simp add: ollama_no_response_key_def)
  from generate_propagates_failures
         [OF p1, where e = "PyError ''ConnectError'' ''All connection attempts failed''",
          THEN conjunct1]
  have g1: "OllamaConnector_generate ollama_unreachable ''Bonjour'' PNone (PFloat 0.7) (PInt 2000) []
     = Inl (PyError ''ConnectError'' ''All connection attempts failed'')"
    by simp
  from generate_propagates_failures
         [OF p2, where e = "PyError ''HTTPStatusError'' ''Server error 500''"
            and response = "\<lparr>raise_for_status = Some (PyError ''HTTPStatusError'' ''Server error 500''),
                               json = Inr (PDict [(''error'', PStr ''internal'')])\<rparr>",
          THEN conjunct2, THEN conjunct1]
  have g2: "OllamaConnector_generate ollama_error_status ''Bonjour'' PNone (PFloat 0.7) (PInt 2000) []
     = Inl (PyError ''HTTPStatusError'' ''Server error 500'')"
    by simp
  from generate_propagates_failures
         [OF p3, where e = "PyError ''JSONDecodeError'' ''Expecting value: line 1 column 1 (char 0)''"
            and response = "\<lparr>raise_for_status = None,
                               json = Inl (PyError ''JSONDecodeError''
                                             ''Expecting value: line 1 column 1 (char 0)'')\<rparr>",
          THEN conjunct2, THEN conjunct2, THEN conjunct1]
  have g3: "OllamaConnector_generate ollama_not_json ''Bonjour'' PNone (PFloat 0.7) (PInt 2000) []
     = Inl (PyError ''JSONDecodeError'' ''Expecting value: line 1 column 1 (char 0)'')"
    by simp
  from generate_propagates_failures
         [OF p4, where body = "PDict [(''error'', PStr ''model not found'')]"
            and response = "\<lparr>raise_for_status = None,
                               json = Inr (PDict [(''error'', PStr ''model not found'')])\<rparr>",
          THEN conjunct2, THEN conjunct2, THEN conjunct2, THEN conjunct2, THEN conjunct1]
  have g4: "OllamaConnector_generate ollama_no_response_key ''Bonjour'' PNone (PFloat 0.7) (PInt 2000) []
     = Inr (PStr '''')"
    by simp
  from g1 g2 g3 g4 show ?thesis by simp
qed

section \<open>The parse routine of the code assistant\<close>

subsection \<open>Trying alternatives in order\<close>

lemma first_some_None: "(\<forall>x\<in>set xs. f x = None) \<Longrightarrow> first_some f xs = None"
  by (induction xs) auto

lemma first_some_Some_ex: "first_some f xs = Some y \<Longrightarrow> \<exists>x\<in>set xs. f x = Some y"
  by (induction xs) (auto split: option.splits)

lemma first_some_append:
  "first_some f (xs @ ys) = (case first_some f xs of Some y \<Rightarrow> Some y | None \<Rightarrow> first_some f ys)"
  by (induction xs) (auto split: option.splits)

lemma upt_split: "n < k \<Longrightarrow> [0..<k] = [0..<n] @ n # [Suc n..<k]"
proof -
  assume a: "n < k"
  then have "[0..<k] = [0..<n] @ [n..<k]"
    by (metis le0 le_add_diff_inverse less_imp_le upt_add_eq_append)
  with a show ?thesis by (simp add: upt_conv_Cons)
qed

lemma first_some_upt_least:
  "first_some f [0..<k] = Some y \<Longrightarrow> \<exists>n<k. f n = Some y \<and> (\<forall>n'<n. f n' = None)"
proof (induction k)
  case 0
  then show ?case by simp
next
  case (Suc k)
  show ?case
  proof (cases "first_some f [0..<k]")
    case None
    with Suc.prems have fk: "f k = Some y"
      by (simp add: first_some_append split: option.splits)
    have "f n' = None" if "n' < k" for n'
    proof (rule ccontr)
      assume "f n' \<noteq> None"
      then obtain z where z: "f n' = Some z" by auto
      have "[0..<k] = [0..<n'] @ n' # [Suc n'..<k]"
        using that by (rule upt_split)
      then have "first_some f [0..<k] \<noteq> None"
        using z by (simp add: first_some_append split: option.splits)
      with None show False by simp
    qed
    with fk show ?thesis by auto
  next
    case (Some z)
    with Suc.prems have "z = y"
      by (simp add: first_some_append)
    with Some Suc.IH obtain n where "n < k" "f n = Some y" "\<forall>n'<n. f n' = None" by auto
    then show ?thesis by (auto intro: less_SucI)
  qed
qed

lemma first_some_upt_at:
  assumes "n < k" "f n = Some y" "\<forall>n'<n. f n' = None"
  shows "first_some f [0..<k] = Some y"
proof -
  have "[0..<k] = [0..<n] @ n # [Suc n..<k]"
    using assms(1) by (rule upt_split)
  moreover have "first_some f [0..<n] = None"
    using assms(3) by (intro first_some_None) auto
  ultimately show ?thesis using assms(2) by (simp add: first_some_append)
qed

subsection \<open>The closing fence\<close>

text \<open>
  A backtick is no whitespace, so giving back whitespace never helps \<open>\s*```\<close>: it matches
  exactly when the fence follows the whole run of whitespace. The lazy group therefore ends
  at the first position from which whitespace leads to a fence.
\<close>

lemma not_space_backtick: "\<not> is_space (CHR 0x60)"
  by (simp add: is_space_def)

lemma space_newline: "is_space (CHR 0x0A)"
  by (simp add: is_space_def)

lemma rx_close:
  "rx_match [Star is_space, Lit ''```''] g v =
     (if prefix ''```'' (dropWhile is_space v) then Some (g, drop 3 (dropWhile is_space v)) else None)"
proof -
  let ?m = "length (takeWhile is_space v)"
  let ?f = "\<lambda>n. rx_match [Lit ''```''] g (drop n v)"
  have dm: "drop ?m v = dropWhile is_space v"
    by (simp add: dropWhile_eq_drop)
  have small: "?f k = None" if "k < ?m" for k
  proof -
    from that have kv: "k < length v"
      by (meson length_takeWhile_le less_le_trans)
    have "is_space (takeWhile is_space v ! k)"
      using that by (meson nth_mem set_takeWhileD)
    then have "is_space (v ! k)"
      using that by (simp add: takeWhile_nth)
    moreover have "drop k v = v ! k # drop (Suc k) v"
      using kv by (simp add: Cons_nth_drop_Suc)
    ultimately show ?thesis
      using not_space_backtick by auto
  qed
  have "rx_match [Star is_space, Lit ''```''] g v = first_some ?f (?m # rev [0..<?m])"
    by simp
  also have "\<dots> = (case ?f ?m of Some y \<Rightarrow> Some y | None \<Rightarrow> first_some ?f (rev [0..<?m]))"
    by simp
  also have "first_some ?f (rev [0..<?m]) = None"
    using small by (intro first_some_None) auto
  finally show ?thesis
    by (simp add: dm numeral_3_eq_3)
qed

lemma takeWhile_all: "takeWhile (\<lambda>c. True) u = u"
  by (induction u) auto

lemma rx_lazy_close:
  "rx_match [LazyGroup (\<lambda>c. True), Star is_space, Lit ''```''] g0 u =
     first_some (\<lambda>n. if prefix ''```'' (dropWhile is_space (drop n u))
                      then Some (take n u, drop 3 (dropWhile is_space (drop n u))) else None)
       [0..<Suc (length u)]"
  apply (subst rx_match.simps(4))
  apply (simp only: rx_close takeWhile_all)
  done

subsection \<open>What the group of a match holds\<close>

text \<open>The group ends before the first fence that follows it: it holds no fence itself.\<close>

lemma first_some_upt_leastE:
  assumes "first_some f [0..<k] = Some y"
  obtains n where "n < k" and "f n = Some y" and "\<forall>n'<n. f n' = None"
  using first_some_upt_least [OF assms] by blast

lemma prefix_dropWhile_backticks: "prefix ''```'' (dropWhile is_space (''```'' @ r))"
  using not_space_backtick by simp

lemma rx_lazy_group_no_fence:
  assumes "rx_match [LazyGroup (\<lambda>c. True), Star is_space, Lit ''```''] g0 u = Some (g, rest)"
  shows "\<not> sublist ''```'' g"
proof
  assume sub: "sublist ''```'' g"
  define f where "f = (\<lambda>n. if prefix ''```'' (dropWhile is_space (drop n u))
                      then Some (take n u, drop 3 (dropWhile is_space (drop n u))) else None)"
  from assms have fs: "first_some f [0..<Suc (length u)] = Some (g, rest)"
    unfolding f_def by (simp only: rx_lazy_close)
  from fs obtain n where n: "n < Suc (length u)" "f n = Some (g, rest)" "\<forall>n'<n. f n' = None"
    by (rule first_some_upt_leastE)
  from n(2) have g: "g = take n u"
    unfolding f_def by (simp split: if_splits)
  from sub obtain ps ss where pss: "g = ps @ ''```'' @ ss"
    unfolding sublist_def by blast
  have "length g = n" using g n(1) by simp
  with pss have jn: "length ps < n" by simp
  define d where "d = drop n u"
  have u0: "u = take n u @ d" by (simp add: d_def)
  have tk: "take n u = ps @ (''```'' @ ss)" using g pss by simp
  have u: "u = ps @ (''```'' @ (ss @ d))"
    by (subst u0, subst tk) simp
  have dr: "drop (length ps) u = ''```'' @ (ss @ d)"
    by (simp add: u)
  have "prefix ''```'' (dropWhile is_space (drop (length ps) u))"
    unfolding dr by (rule prefix_dropWhile_backticks)
  then have some: "f (length ps) \<noteq> None"
    unfolding f_def by simp
  have "f (length ps) = None"
    using n(3) [rule_format, OF jn] .
  with some show False by contradiction
qed

lemma rx_match_code_pattern_unfold:
  "rx_match code_pattern [] s =
     (if prefix ''```python'' s
      then first_some
             (\<lambda>n. rx_match [LazyGroup (\<lambda>c. True), Star is_space, Lit ''```''] []
                    (drop n (drop (length ''```python'') s)))
             (rev [0..<Suc (length (takeWhile is_space (drop (length ''```python'') s)))])
      else None)"
  unfolding code_pattern_def
  apply (subst rx_match.simps(2))
  apply (subst rx_match.simps(3))
  apply (rule refl)
  done

lemma rx_match_code_pattern_no_fence:
  assumes "rx_match code_pattern [] s = Some (g, rest)"
  shows "\<not> sublist ''```'' g"
proof -
  define h where "h = (\<lambda>n. rx_match [LazyGroup (\<lambda>c. True), Star is_space, Lit ''```''] []
                    (drop n (drop (length ''```python'') s)))"
  define ns where "ns = rev [0..<Suc (length (takeWhile is_space (drop (length ''```python'') s)))]"
  have "rx_match code_pattern [] s = (if prefix ''```python'' s then first_some h ns else None)"
    unfolding h_def ns_def by (rule rx_match_code_pattern_unfold)
  with assms have "(if prefix ''```python'' s then first_some h ns else None) = Some (g, rest)"
    by (simp only:)
  then have "first_some h ns = Some (g, rest)"
    by (cases "prefix ''```python'' s") simp_all
  then obtain n0 where "h n0 = Some (g, rest)"
    using first_some_Some_ex [of h ns "(g, rest)"] by blast
  then show ?thesis
    unfolding h_def by (rule rx_lazy_group_no_fence)
qed

lemma rx_search_group:
  "rx_search items i s = Some m \<Longrightarrow> \<exists>s' rest. rx_match items [] s' = Some (m_group1 m, rest)"
proof (induction items i s rule: rx_search.induct)
  case (1 items i s)
  show ?case
  proof (cases "rx_match items [] s")
    case None
    from "1.prems" have "(case s of [] \<Rightarrow> None | c # cs \<Rightarrow> rx_search items (Suc i) cs) = Some m"
      by (subst (asm) rx_search.simps) (simp add: None)
    then obtain c cs where s: "s = c # cs" and r: "rx_search items (Suc i) cs = Some m"
      by (cases s) auto
    from "1.IH" [OF None s r] show ?thesis .
  next
    case (Some a)
    obtain grp rest where a: "a = (grp, rest)" by (cases a)
    from "1.prems" have "m_group1 m = grp"
      by (subst (asm) rx_search.simps) (auto simp: Some a)
    with Some a show ?thesis by auto
  qed
qed

subsection \<open>Stripping\<close>

lemma sublist_trans: "sublist xs ys \<Longrightarrow> sublist ys zs \<Longrightarrow> sublist xs zs"
proof -
  assume "sublist xs ys" "sublist ys zs"
  then obtain a b c d where "ys = a @ xs @ b" "zs = c @ ys @ d"
    unfolding sublist_def by blast
  then have "zs = (c @ a) @ xs @ (b @ d)" by simp
  then show ?thesis unfolding sublist_def by blast
qed

lemma strip_sublist: "sublist (strip g) g"
proof -
  have "sublist (dropWhile is_space (rev (dropWhile is_space g))) (rev (dropWhile is_space g))"
    by simp
  then have "sublist (strip g) (dropWhile is_space g)"
    unfolding strip_def by (simp add: sublist_rev_left)
  moreover have "sublist (dropWhile is_space g) g" by simp
  ultimately show ?thesis by (rule sublist_trans)
qed

lemma strip_ends:
  assumes "strip g \<noteq> []"
  shows "\<not> is_space (hd (strip g)) \<and> \<not> is_space (last (strip g))"
proof -
  let ?a = "dropWhile is_space g"
  let ?b = "dropWhile is_space (rev ?a)"
  have sb: "strip g = rev ?b" by (simp add: strip_def)
  with assms have b: "?b \<noteq> []" by simp
  then have hb: "\<not> is_space (hd ?b)" by (rule hd_dropWhile)
  from b have a: "?a \<noteq> []" by (auto dest: set_dropWhileD)
  then have ha: "\<not> is_space (hd ?a)" by (rule hd_dropWhile)
  have "suffix ?b (rev ?a)" by (rule suffix_dropWhile)
  then obtain p where "rev ?a = p @ ?b" by (auto simp: suffix_def)
  with b have "last ?b = last (rev ?a)" by (metis last_appendR)
  also have "\<dots> = hd ?a" using a by (simp add: last_rev)
  finally have "last ?b = hd ?a" .
  with ha hb b show ?thesis
    by (simp add: sb hd_rev last_rev)
qed

lemma strip_fixed:
  assumes "x = [] \<or> (\<not> is_space (hd x) \<and> \<not> is_space (last x))"
  shows "strip x = x"
proof (cases "x = []")
  case True
  then show ?thesis by (simp add: strip_def)
next
  case False
  with assms have h: "\<not> is_space (hd x)" and l: "\<not> is_space (last x)" by auto
  from False h have "dropWhile is_space x = x"
    by (cases x) auto
  moreover from False l have "dropWhile is_space (rev x) = rev x"
    by (cases "rev x") (auto simp: last_rev [symmetric] hd_rev)
  ultimately show ?thesis by (simp add: strip_def)
qed

subsection \<open>Parsing a fenced text\<close>

text \<open>
  In a fenced text whose content has no whitespace at its ends and holds no fence, the
  first fence that whitespace leads to is the closing one, so the group is the content.
\<close>

lemma no_early_close:
  assumes n: "n < length x" and l: "\<not> is_space (last x)" and nf: "\<not> sublist ''```'' x"
  shows "\<not> prefix ''```'' (dropWhile is_space (drop n x @ CHR 0x0A # ''```''))"
proof
  define y where "y = drop n x"
  define z where "z = dropWhile is_space y"
  assume p: "prefix ''```'' (dropWhile is_space (drop n x @ CHR 0x0A # ''```''))"
  from n have y: "y \<noteq> []" by (simp add: y_def)
  from n have ly: "last y = last x" by (simp add: y_def)
  from y have "last y \<in> set y" by (rule last_in_set)
  moreover from l ly have "\<not> is_space (last y)" by simp
  ultimately have ex: "last y \<in> set y" "\<not> is_space (last y)" by blast+
  then have dw: "dropWhile is_space (y @ CHR 0x0A # ''```'') = z @ CHR 0x0A # ''```''"
    unfolding z_def by (rule dropWhile_append1)
  from ex have z: "z \<noteq> []"
    unfolding z_def by auto
  have "suffix z y" unfolding z_def by (rule suffix_dropWhile)
  moreover have "suffix y x" unfolding y_def by (rule suffix_drop)
  ultimately have "suffix z x" by (rule suffix_order.trans)
  then have zx: "sublist z x" by (rule suffix_imp_sublist)
  from p have pz: "prefix ''```'' (z @ CHR 0x0A # ''```'')"
    unfolding y_def [symmetric] dw .
  from z obtain c z1 where z1: "z = c # z1" by (cases z) auto
  show False
  proof (cases z1)
    case Nil
    with pz z1 show False by simp
  next
    case (Cons d z2)
    show False
    proof (cases z2)
      case Nil
      with pz z1 Cons show False by simp
    next
      case (Cons e w)
      with pz z1 \<open>z1 = d # z2\<close> have "z = ''```'' @ w" by auto
      then have "sublist ''```'' z" by (metis sublist_append_rightI)
      then have "sublist ''```'' x" using zx by (rule sublist_trans)
      with nf show False by contradiction
    qed
  qed
qed

lemma rx_lazy_fence:
  assumes x: "x \<noteq> []" and l: "\<not> is_space (last x)" and nf: "\<not> sublist ''```'' x"
  shows "rx_match [LazyGroup (\<lambda>c. True), Star is_space, Lit ''```''] [] (x @ CHR 0x0A # ''```'')
           = Some (x, [])"
proof -
  define u where "u = x @ CHR 0x0A # ''```''"
  define f where "f = (\<lambda>n. if prefix ''```'' (dropWhile is_space (drop n u))
                      then Some (take n u, drop 3 (dropWhile is_space (drop n u))) else None)"
  have len: "length x < Suc (length u)" by (simp add: u_def)
  have dl: "drop (length x) u = CHR 0x0A # ''```''" by (simp add: u_def)
  have tl: "take (length x) u = x" by (simp add: u_def)
  have at: "f (length x) = Some (x, [])"
    unfolding f_def dl tl using space_newline not_space_backtick by simp
  have before: "\<forall>n'<length x. f n' = None"
  proof (intro allI impI)
    fix n' assume n': "n' < length x"
    then have "drop n' u = drop n' x @ CHR 0x0A # ''```''" by (simp add: u_def)
    with no_early_close [OF n' l nf] show "f n' = None"
      unfolding f_def by simp
  qed
  have "first_some f [0..<Suc (length u)] = Some (x, [])"
    using len at before by (rule first_some_upt_at)
  then show ?thesis
    unfolding f_def u_def by (simp only: rx_lazy_close)
qed

lemma rx_match_fence:
  assumes x: "x \<noteq> []" and h: "\<not> is_space (hd x)" and l: "\<not> is_space (last x)"
    and nf: "\<not> sublist ''```'' x"
  shows "rx_match code_pattern [] (fence x) = Some (x, [])"
proof -
  from x obtain c xs where cx: "x = c # xs" by (cases x) auto
  with h have c: "\<not> is_space c" by simp
  have pre: "prefix ''```python'' (fence x)" by (simp add: fence_def)
  have dr: "drop (length ''```python'') (fence x) = CHR 0x0A # x @ CHR 0x0A # ''```''"
    by (simp add: fence_def)
  have tw: "takeWhile is_space (CHR 0x0A # x @ CHR 0x0A # ''```'') = [CHR 0x0A]"
    using space_newline c by (simp add: cx)
  have ns: "rev [0..<Suc (length [CHR 0x0A])] = [1, 0]"
    by (simp add: upt_rec)
  show ?thesis
    by (simp only: rx_match_code_pattern_unfold pre dr tw ns if_True first_some.simps
        drop_Suc_Cons drop_0 One_nat_def rx_lazy_fence [OF x l nf] option.case)
qed

lemma rx_match_fence_empty: "rx_match code_pattern [] (fence []) = Some ([], [])"
  by code_simp


lemma rx_search_at_start:
  "rx_match items [] s = Some (g, rest) \<Longrightarrow>
   rx_search items 0 s = Some \<lparr>m_start = 0, m_end = 0 + (length s - length rest), m_group1 = g\<rparr>"
  by (subst rx_search.simps) simp

lemma parse_fence_clean:
  assumes ends: "x = [] \<or> (\<not> is_space (hd x) \<and> \<not> is_space (last x))"
    and nf: "\<not> sublist ''```'' x"
  shows "fst (parse_llm_response (fence x)) = x"
proof -
  have m: "rx_match code_pattern [] (fence x) = Some (x, [])"
  proof (cases "x = []")
    case True
    then show ?thesis by (simp only: rx_match_fence_empty)
  next
    case False
    with ends nf show ?thesis by (intro rx_match_fence) auto
  qed
  have "fst (parse_llm_response (fence x)) = strip x"
    unfolding parse_llm_response_def
    by (simp only: rx_search_at_start [OF m] option.case Let_def fst_conv rx_result.simps)
  also have "\<dots> = x"
    using ends by (rule strip_fixed)
  finally show ?thesis .
qed

text \<open>
  Claim C8, as stated: for every primary field \<open>x\<close> that the parse routine extracted,
  parsing \<open>x\<close> fenced as a Python code block gives \<open>x\<close> again. It is false for a primary
  field that comes from the fallback, which returns the whole response as it is: a response
  without a fenced Python block that starts with a space loses the space, and a response that
  is a code block without the language tag comes back empty.
\<close>

theorem parse_fenced_fallback_changes:
  "fst (parse_llm_response (fence (fst (parse_llm_response '' x = 1''))))
     \<noteq> fst (parse_llm_response '' x = 1'')
   \<and> fst (parse_llm_response (''```'' @ [CHR 0x0A] @ ''x = 1'' @ [CHR 0x0A] @ ''```''))
     = ''```'' @ [CHR 0x0A] @ ''x = 1'' @ [CHR 0x0A] @ ''```''
   \<and> fst (parse_llm_response
            (fence (''```'' @ [CHR 0x0A] @ ''x = 1'' @ [CHR 0x0A] @ ''```''))) = []"
  by code_simp

text \<open>
  Claim C8, amended: for every response in which the pattern finds a fenced Python block,
  the improved code \<open>x\<close> extracted from it is unchanged by parsing \<open>x\<close> fenced as a Python
  code block: the extracted code has no whitespace at its ends and holds no fence.
\<close>

theorem parse_fenced_extracted_code:
  assumes "rx_search code_pattern 0 response \<noteq> None"
  shows "fst (parse_llm_response (fence (fst (parse_llm_response response))))
           = fst (parse_llm_response response)"
proof -
  from assms obtain m where m: "rx_search code_pattern 0 response = Some m" by auto
  define x where "x = strip (m_group1 m)"
  have px: "fst (parse_llm_response response) = x"
    unfolding parse_llm_response_def x_def by (simp only: m option.case Let_def fst_conv)
  from rx_search_group [OF m] obtain s' rest
    where "rx_match code_pattern [] s' = Some (m_group1 m, rest)" by blast
  then have "\<not> sublist ''```'' (m_group1 m)"
    by (rule rx_match_code_pattern_no_fence)
  moreover have "sublist x (m_group1 m)"
    unfolding x_def by (rule strip_sublist)
  ultimately have nf: "\<not> sublist ''```'' x"
    using sublist_trans by blast
  have ends: "x = [] \<or> (\<not> is_space (hd x) \<and> \<not> is_space (last x))"
    unfolding x_def using strip_ends by blast
  from parse_fence_clean [OF ends nf] show ?thesis
    by (simp only: px)
qed

theorem parse_fenced_extracted_code_witness:
  "rx_search code_pattern 0 (''Voici: '' @ fence ''x = 1'' @ '' Fin.'') \<noteq> None
   \<and> fst (parse_llm_response (''Voici: '' @ fence ''x = 1'' @ '' Fin.'')) = ''x = 1''
   \<and> fst (parse_llm_response (fence ''x = 1'')) = ''x = 1''"
proof -
  have a: "rx_search code_pattern 0 (''Voici: '' @ fence ''x = 1'' @ '' Fin.'') \<noteq> None"
    by code_simp
  have b: "fst (parse_llm_response (''Voici: '' @ fence ''x = 1'' @ '' Fin.'')) = ''x = 1''"
    by code_simp
  from parse_fenced_extracted_code [OF a]
  have "fst (parse_llm_response (fence ''x = 1'')) = ''x = 1''"
    by (simp only: b)
  with a b show ?thesis by (intro conjI)
qed

end
